theory Spec2Isabelle
  imports Main "HOL-Library.Char_ord" "HOL-Library.List_Lexorder"
begin

section \<open>Python values\<close>

text \<open>
  The library maps the vendor's XML answers, parsed into nested mappings, to records.
  The values that flow through \<^verbatim>\<open>detection.py\<close> and \<^verbatim>\<open>reports.py\<close> are the ones
  the XML parser produces (strings, mappings, lists, None), the ones callers pass as
  keyword arguments (integers, booleans) and the objects the normaliser builds
  (date-times, QDS, QDSFactor).

  A date-time is kept as its position on the time line, in microseconds, together with
  whether it carries a time zone: Python compares two aware values by instant, two naive
  ones by their fields, and never orders a naive against an aware one.
\<close>

datatype datetime = Naive int | Aware int

text \<open>
  Modelled from the spec: the classes QDS (\<^verbatim>\<open>qds.py\<close>) and QDSFactor
  (\<^verbatim>\<open>qds_factor.py\<close>) are imported by \<^verbatim>\<open>detection.py\<close> and are not among the
  sources. The spec gives them as plain pairs: "a severity category paired with a numeric
  score" and "a name/value pair", built from the keyword arguments SEVERITY, SCORE and
  NAME, VALUE. They are values with two fields and nothing else: no subscripting, no
  length, no conversion to int.
\<close>

datatype pyval =
    PNone
  | PBool bool
  | PInt int
  | PStr string
  | PList "pyval list"
  | PDict "(string \<times> pyval) list"
  | PDatetime datetime
  | PQDS pyval pyval
  | PQDSFactor pyval pyval

type_synonym pydict = "(string \<times> pyval) list"

text \<open>
  Exceptions are values. The ones the code raises itself keep the data they were built
  from; the others keep a message.
  \<^item> \<^verbatim>\<open>ValueError_keys\<close>: the ValueError of \<^verbatim>\<open>from_dict\<close>, whose message is
    "Dictionary must contain the following keys: " followed by the printed set
    \<^verbatim>\<open>required_keys\<close>. Python leaves the printing order of a set open, so the payload
    is the collection of names, not the printed text.
  \<^item> \<^verbatim>\<open>TypeError_unexpected\<close>, \<^verbatim>\<open>TypeError_missing\<close>, \<^verbatim>\<open>TypeError_multiple\<close>:
    the TypeErrors of a call whose keyword arguments do not fit the signature (an unknown
    name; required parameters without a value, in declaration order; a name given twice).
\<close>

datatype error =
    ValueError string
  | ValueError_keys "string list"
  | TypeError string
  | TypeError_unexpected string
  | TypeError_missing "string list"
  | TypeError_multiple string
  | KeyError string
  | NotImplementedError string
  | QualysAPIError pyval
  | OtherError string

definition and_then :: "error + 'a \<Rightarrow> ('a \<Rightarrow> error + 'b) \<Rightarrow> error + 'b" where
  "and_then r f = (case r of Inl e \<Rightarrow> Inl e | Inr x \<Rightarrow> f x)"

subsection \<open>Mappings\<close>

text \<open>
  A Python dict is an association list in insertion order with distinct keys:
  \<^verbatim>\<open>d[k] = v\<close> replaces the value of a present key in place and appends a new key.
\<close>

fun dict_get :: "pydict \<Rightarrow> string \<Rightarrow> pyval option" where
  "dict_get [] k = None"
| "dict_get ((k', v) # kvs) k = (if k' = k then Some v else dict_get kvs k)"

fun dict_set :: "string \<Rightarrow> pyval \<Rightarrow> pydict \<Rightarrow> pydict" where
  "dict_set k v [] = [(k, v)]"
| "dict_set k v ((k', w) # kvs) =
     (if k' = k then (k, v) # kvs else (k', w) # dict_set k v kvs)"

definition dict_keys :: "pydict \<Rightarrow> string list" where
  "dict_keys d = map fst d"

text \<open>\<^verbatim>\<open>x[k]\<close> with a string key: only a mapping can be subscripted by a string.\<close>

fun getitem :: "pyval \<Rightarrow> string \<Rightarrow> error + pyval" where
  "getitem (PDict d) k = (case dict_get d k of None \<Rightarrow> Inl (KeyError k) | Some v \<Rightarrow> Inr v)"
| "getitem (PStr s) k = Inl (TypeError ''string indices must be integers'')"
| "getitem (PList xs) k = Inl (TypeError ''list indices must be integers or slices, not str'')"
| "getitem v k = Inl (TypeError ''object is not subscriptable'')"

subsection \<open>Truth, int(), bool()\<close>

fun truthy :: "pyval \<Rightarrow> bool" where
  "truthy PNone = False"
| "truthy (PBool b) = b"
| "truthy (PInt n) = (n \<noteq> 0)"
| "truthy (PStr s) = (s \<noteq> [])"
| "truthy (PList xs) = (xs \<noteq> [])"
| "truthy (PDict d) = (d \<noteq> [])"
| "truthy (PDatetime t) = True"
| "truthy (PQDS s n) = True"
| "truthy (PQDSFactor n v) = True"

text \<open>\<^verbatim>\<open>isinstance(x, int)\<close>: bool is a subclass of int.\<close>

fun is_int :: "pyval \<Rightarrow> bool" where
  "is_int (PInt n) = True"
| "is_int (PBool b) = True"
| "is_int v = False"

fun is_bool :: "pyval \<Rightarrow> bool" where
  "is_bool (PBool b) = True"
| "is_bool v = False"

fun is_str :: "pyval \<Rightarrow> bool" where
  "is_str (PStr s) = True"
| "is_str v = False"

fun is_list :: "pyval \<Rightarrow> bool" where
  "is_list (PList xs) = True"
| "is_list v = False"

fun is_dict :: "pyval \<Rightarrow> bool" where
  "is_dict (PDict d) = True"
| "is_dict v = False"

text \<open>
  \<^verbatim>\<open>int(s)\<close> for a string, base 10: white space around the literal is dropped, one
  sign is allowed, then decimal digits, where a single underscore may stand between two
  digits. Characters are the code points below 256. Of these, \<^verbatim>\<open>int\<close> takes as white
  space 9 to 13 and 32, and the two beyond ASCII, 133 and 160; the separators 28 to 31,
  which \<^verbatim>\<open>str.strip\<close> drops, make \<^verbatim>\<open>int\<close> raise ValueError. A literal of more than
  \<^verbatim>\<open>int_max_str_digits\<close> digits (4300, the interpreter's default), underscores not
  counted, is refused with ValueError as well.
\<close>

definition is_space :: "char \<Rightarrow> bool" where
  "is_space c = (let n = (of_char c :: nat) in
     (9 \<le> n \<and> n \<le> 13) \<or> n = 32 \<or> n = 133 \<or> n = 160)"

definition is_digit :: "char \<Rightarrow> bool" where
  "is_digit c = (let n = (of_char c :: nat) in 48 \<le> n \<and> n \<le> 57)"

definition digit_val :: "char \<Rightarrow> nat" where
  "digit_val c = of_char c - 48"

definition strip :: "string \<Rightarrow> string" where
  "strip s = rev (dropWhile is_space (rev (dropWhile is_space s)))"

fun digits :: "nat \<Rightarrow> string \<Rightarrow> nat option" where
  "digits acc [] = Some acc"
| "digits acc (c # cs) =
     (if is_digit c then digits (acc * 10 + digit_val c) cs
      else if c = CHR ''_'' then
        (case cs of [] \<Rightarrow> None
         | d # ds \<Rightarrow> if is_digit d then digits acc cs else None)
      else None)"

definition int_max_str_digits :: nat where
  "int_max_str_digits = 4300"

definition literal :: "string \<Rightarrow> nat option" where
  "literal s = (case s of [] \<Rightarrow> None
     | c # cs \<Rightarrow>
         if \<not> is_digit c then None
         else if length (filter is_digit s) > int_max_str_digits then None
         else digits 0 s)"

definition int_of_str :: "string \<Rightarrow> int option" where
  "int_of_str s =
     (case strip s of
        [] \<Rightarrow> None
      | c # cs \<Rightarrow>
          if c = CHR ''-'' then map_option (\<lambda>n. - int n) (literal cs)
          else if c = CHR ''+'' then map_option int (literal cs)
          else map_option int (literal (c # cs)))"

fun py_int :: "pyval \<Rightarrow> error + int" where
  "py_int (PInt n) = Inr n"
| "py_int (PBool b) = Inr (if b then 1 else 0)"
| "py_int (PStr s) =
     (case int_of_str s of
        None \<Rightarrow> Inl (ValueError (''invalid literal for int() with base 10: '' @ s))
      | Some n \<Rightarrow> Inr n)"
| "py_int v = Inl (TypeError ''int() argument must be a string, a bytes-like object or a real number'')"


subsection \<open>Comparison\<close>

text \<open>
  \<^verbatim>\<open>==\<close> on values: numbers by value (True is 1), strings, lists element by element,
  mappings key by key whatever the order, objects of a data class field by field, and
  values of unrelated kinds are different.
\<close>

fun num_of :: "pyval \<Rightarrow> int option" where
  "num_of (PInt n) = Some n"
| "num_of (PBool b) = Some (if b then 1 else 0)"
| "num_of v = None"

fun py_eq :: "pyval \<Rightarrow> pyval \<Rightarrow> bool"
  and py_eq_list :: "pyval list \<Rightarrow> pyval list \<Rightarrow> bool"
  and py_eq_items :: "pydict \<Rightarrow> pydict \<Rightarrow> bool"
  and py_eq_item :: "string \<Rightarrow> pyval \<Rightarrow> pydict \<Rightarrow> bool" where
  "py_eq PNone w = (w = PNone)"
| "py_eq (PBool a) w = (num_of w = Some (if a then 1 else 0))"
| "py_eq (PInt a) w = (num_of w = Some a)"
| "py_eq (PStr a) w = (w = PStr a)"
| "py_eq (PList xs) w = (case w of PList ys \<Rightarrow> py_eq_list xs ys | _ \<Rightarrow> False)"
| "py_eq (PDict xs) w =
     (case w of PDict ys \<Rightarrow> length xs = length ys \<and> py_eq_items xs ys | _ \<Rightarrow> False)"
| "py_eq (PDatetime a) w = (w = PDatetime a)"
| "py_eq (PQDS s n) w = (case w of PQDS s' n' \<Rightarrow> py_eq s s' \<and> py_eq n n' | _ \<Rightarrow> False)"
| "py_eq (PQDSFactor n v) w =
     (case w of PQDSFactor n' v' \<Rightarrow> py_eq n n' \<and> py_eq v v' | _ \<Rightarrow> False)"
| "py_eq_list [] ys = (ys = [])"
| "py_eq_list (x # xs) ys =
     (case ys of [] \<Rightarrow> False | y # ys' \<Rightarrow> py_eq x y \<and> py_eq_list xs ys')"
| "py_eq_items [] ys = True"
| "py_eq_items ((k, v) # xs) ys = (py_eq_item k v ys \<and> py_eq_items xs ys)"
| "py_eq_item k v [] = False"
| "py_eq_item k v ((k', w) # ys) = ((k = k' \<and> py_eq v w) \<or> py_eq_item k v ys)"

text \<open>
  The ordering operators: numbers with numbers, strings with strings by code point,
  lists lexicographically, date-times of the same kind; anything else is a TypeError.
\<close>

datatype cmp_op = Lt | Le | Gt | Ge

fun cmp_on :: "cmp_op \<Rightarrow> ('a::linorder) \<Rightarrow> 'a \<Rightarrow> bool" where
  "cmp_on Lt a b = (a < b)"
| "cmp_on Le a b = (a \<le> b)"
| "cmp_on Gt a b = (b < a)"
| "cmp_on Ge a b = (b \<le> a)"

definition not_supported :: "error + bool" where
  "not_supported = Inl (TypeError ''comparison not supported between instances'')"

fun cmp_datetime :: "cmp_op \<Rightarrow> datetime \<Rightarrow> datetime \<Rightarrow> error + bool" where
  "cmp_datetime op (Naive a) (Naive b) = Inr (cmp_on op a b)"
| "cmp_datetime op (Aware a) (Aware b) = Inr (cmp_on op a b)"
| "cmp_datetime op s t = not_supported"

fun py_cmp :: "cmp_op \<Rightarrow> pyval \<Rightarrow> pyval \<Rightarrow> error + bool"
  and py_cmp_list :: "cmp_op \<Rightarrow> pyval list \<Rightarrow> pyval list \<Rightarrow> error + bool" where
  "py_cmp op (PInt a) w =
     (case num_of w of Some b \<Rightarrow> Inr (cmp_on op a b) | None \<Rightarrow> not_supported)"
| "py_cmp op (PBool a) w =
     (case num_of w of Some b \<Rightarrow> Inr (cmp_on op (if a then 1 else 0) b)
      | None \<Rightarrow> not_supported)"
| "py_cmp op (PStr a) w = (case w of PStr b \<Rightarrow> Inr (cmp_on op a b) | _ \<Rightarrow> not_supported)"
| "py_cmp op (PList xs) w = (case w of PList ys \<Rightarrow> py_cmp_list op xs ys | _ \<Rightarrow> not_supported)"
| "py_cmp op (PDatetime s) w =
     (case w of PDatetime t \<Rightarrow> cmp_datetime op s t | _ \<Rightarrow> not_supported)"
| "py_cmp op PNone w = not_supported"
| "py_cmp op (PDict d) w = not_supported"
| "py_cmp op (PQDS s n) w = not_supported"
| "py_cmp op (PQDSFactor n v) w = not_supported"
| "py_cmp_list op [] ys = Inr (cmp_on op 0 (length ys))"
| "py_cmp_list op (x # xs) ys =
     (case ys of [] \<Rightarrow> Inr (cmp_on op (Suc (length xs)) 0)
      | y # ys' \<Rightarrow> if py_eq x y then py_cmp_list op xs ys' else py_cmp op x y)"


section \<open>The Detection record (\<^verbatim>\<open>detection.py\<close>)\<close>

text \<open>
  The data class has 21 fields, declared in this order. Python does not check the
  annotations, so each field can hold any value; the types the code relies on are the
  ones \<^verbatim>\<open>__post_init__\<close> establishes. The field TYPE is written \<^verbatim>\<open>TYPE'\<close>.
\<close>

record Detection =
  UNIQUE_VULN_ID :: pyval
  QID :: pyval
  TYPE' :: pyval
  SEVERITY :: pyval
  STATUS :: pyval
  SSL :: pyval
  RESULTS :: pyval
  FIRST_FOUND_DATETIME :: pyval
  LAST_FOUND_DATETIME :: pyval
  QDS :: pyval
  QDS_FACTORS :: pyval
  TIMES_FOUND :: pyval
  LAST_TEST_DATETIME :: pyval
  LAST_UPDATE_DATETIME :: pyval
  IS_IGNORED :: pyval
  IS_DISABLED :: pyval
  LAST_PROCESSED_DATETIME :: pyval
  LAST_FIXED_DATETIME :: pyval
  PORT :: pyval
  PROTOCOL :: pyval
  FQDN :: pyval

definition field_names :: "string list" where
  "field_names =
     [''UNIQUE_VULN_ID'',
      ''QID'',
      ''TYPE'',
      ''SEVERITY'',
      ''STATUS'',
      ''SSL'',
      ''RESULTS'',
      ''FIRST_FOUND_DATETIME'',
      ''LAST_FOUND_DATETIME'',
      ''QDS'',
      ''QDS_FACTORS'',
      ''TIMES_FOUND'',
      ''LAST_TEST_DATETIME'',
      ''LAST_UPDATE_DATETIME'',
      ''IS_IGNORED'',
      ''IS_DISABLED'',
      ''LAST_PROCESSED_DATETIME'',
      ''LAST_FIXED_DATETIME'',
      ''PORT'',
      ''PROTOCOL'',
      ''FQDN'']"

text \<open>
  The first five fields are declared without a default, hence required by the
  constructor. The defaults of the others are False for SSL, IS_IGNORED and IS_DISABLED,
  the empty string for RESULTS, 0 for TIMES_FOUND and None for the rest.
\<close>

definition required_fields :: "string list" where
  "required_fields = [''UNIQUE_VULN_ID'', ''QID'', ''TYPE'', ''SEVERITY'', ''STATUS'']"

text \<open>
  Reading and writing a field by its name. Only the 21 field names are ever used: the
  loops run over constant lists of them, and the constructor refuses any other keyword.
\<close>

definition getattr :: "Detection \<Rightarrow> string \<Rightarrow> pyval" where
  "getattr d n =
     (if n = ''UNIQUE_VULN_ID'' then UNIQUE_VULN_ID d
      else if n = ''QID'' then QID d
      else if n = ''TYPE'' then TYPE' d
      else if n = ''SEVERITY'' then SEVERITY d
      else if n = ''STATUS'' then STATUS d
      else if n = ''SSL'' then SSL d
      else if n = ''RESULTS'' then RESULTS d
      else if n = ''FIRST_FOUND_DATETIME'' then FIRST_FOUND_DATETIME d
      else if n = ''LAST_FOUND_DATETIME'' then LAST_FOUND_DATETIME d
      else if n = ''QDS'' then QDS d
      else if n = ''QDS_FACTORS'' then QDS_FACTORS d
      else if n = ''TIMES_FOUND'' then TIMES_FOUND d
      else if n = ''LAST_TEST_DATETIME'' then LAST_TEST_DATETIME d
      else if n = ''LAST_UPDATE_DATETIME'' then LAST_UPDATE_DATETIME d
      else if n = ''IS_IGNORED'' then IS_IGNORED d
      else if n = ''IS_DISABLED'' then IS_DISABLED d
      else if n = ''LAST_PROCESSED_DATETIME'' then LAST_PROCESSED_DATETIME d
      else if n = ''LAST_FIXED_DATETIME'' then LAST_FIXED_DATETIME d
      else if n = ''PORT'' then PORT d
      else if n = ''PROTOCOL'' then PROTOCOL d
      else if n = ''FQDN'' then FQDN d
      else PNone)"

definition setattr :: "Detection \<Rightarrow> string \<Rightarrow> pyval \<Rightarrow> Detection" where
  "setattr d n v =
     (if n = ''UNIQUE_VULN_ID'' then d\<lparr>UNIQUE_VULN_ID := v\<rparr>
      else if n = ''QID'' then d\<lparr>QID := v\<rparr>
      else if n = ''TYPE'' then d\<lparr>TYPE' := v\<rparr>
      else if n = ''SEVERITY'' then d\<lparr>SEVERITY := v\<rparr>
      else if n = ''STATUS'' then d\<lparr>STATUS := v\<rparr>
      else if n = ''SSL'' then d\<lparr>SSL := v\<rparr>
      else if n = ''RESULTS'' then d\<lparr>RESULTS := v\<rparr>
      else if n = ''FIRST_FOUND_DATETIME'' then d\<lparr>FIRST_FOUND_DATETIME := v\<rparr>
      else if n = ''LAST_FOUND_DATETIME'' then d\<lparr>LAST_FOUND_DATETIME := v\<rparr>
      else if n = ''QDS'' then d\<lparr>QDS := v\<rparr>
      else if n = ''QDS_FACTORS'' then d\<lparr>QDS_FACTORS := v\<rparr>
      else if n = ''TIMES_FOUND'' then d\<lparr>TIMES_FOUND := v\<rparr>
      else if n = ''LAST_TEST_DATETIME'' then d\<lparr>LAST_TEST_DATETIME := v\<rparr>
      else if n = ''LAST_UPDATE_DATETIME'' then d\<lparr>LAST_UPDATE_DATETIME := v\<rparr>
      else if n = ''IS_IGNORED'' then d\<lparr>IS_IGNORED := v\<rparr>
      else if n = ''IS_DISABLED'' then d\<lparr>IS_DISABLED := v\<rparr>
      else if n = ''LAST_PROCESSED_DATETIME'' then d\<lparr>LAST_PROCESSED_DATETIME := v\<rparr>
      else if n = ''LAST_FIXED_DATETIME'' then d\<lparr>LAST_FIXED_DATETIME := v\<rparr>
      else if n = ''PORT'' then d\<lparr>PORT := v\<rparr>
      else if n = ''PROTOCOL'' then d\<lparr>PROTOCOL := v\<rparr>
      else if n = ''FQDN'' then d\<lparr>FQDN := v\<rparr>
      else d)"

subsection \<open>Libraries\<close>

text \<open>
  Two functions come from outside the repository and are parameters of the model:
  \<^item> \<^verbatim>\<open>html_text\<close>: the visible text of a markup string, what
    \<^verbatim>\<open>BeautifulSoup(s, "html.parser").get_text()\<close> returns for a string \<^verbatim>\<open>s\<close>;
  \<^item> \<^verbatim>\<open>fromisoformat\<close>: \<^verbatim>\<open>datetime.fromisoformat\<close>, None where it raises ValueError.
\<close>

record lib =
  html_text :: "string \<Rightarrow> string"
  fromisoformat :: "string \<Rightarrow> datetime option"

text \<open>
  The three loops of \<^verbatim>\<open>__post_init__\<close> read a field by name, convert it and write it
  back. A conversion that raises ends the construction.
\<close>

fun for_fields :: "(pyval \<Rightarrow> error + pyval) \<Rightarrow> string list \<Rightarrow> Detection \<Rightarrow> error + Detection" where
  "for_fields f [] d = Inr d"
| "for_fields f (n # ns) d =
     and_then (f (getattr d n)) (\<lambda>v. for_fields f ns (setattr d n v))"

definition to_datetime :: "lib \<Rightarrow> pyval \<Rightarrow> error + pyval" where
  "to_datetime L v =
     (case v of
        PStr s \<Rightarrow>
          (case fromisoformat L s of
             None \<Rightarrow> Inl (ValueError (''Invalid isoformat string: '' @ s))
           | Some t \<Rightarrow> Inr (PDatetime t))
      | _ \<Rightarrow> Inr v)"

text \<open>
  The markup parser is given the field as it is, with no test before. It takes the length
  of its input first, which None, numbers and booleans do not have (a TypeError), and
  then reads the input as text; the other values that are no text are taken to be
  refused in the same way.
\<close>

definition get_text :: "lib \<Rightarrow> pyval \<Rightarrow> error + pyval" where
  "get_text L v =
     (case v of
        PStr s \<Rightarrow> Inr (PStr (html_text L s))
      | _ \<Rightarrow> Inl (TypeError ''markup is not a string''))"

definition to_bool :: "pyval \<Rightarrow> error + pyval" where
  "to_bool v = (if \<not> is_bool v \<and> v \<noteq> PNone then Inr (PBool (truthy v)) else Inr v)"

definition to_int :: "pyval \<Rightarrow> error + pyval" where
  "to_int v =
     (if \<not> is_int v \<and> v \<noteq> PNone then and_then (py_int v) (\<lambda>n. Inr (PInt n)) else Inr v)"

definition DATETIME_FIELDS :: "string list" where
  "DATETIME_FIELDS =
     [''FIRST_FOUND_DATETIME'', ''LAST_FOUND_DATETIME'', ''LAST_TEST_DATETIME'',
      ''LAST_UPDATE_DATETIME'', ''LAST_PROCESSED_DATETIME'', ''LAST_FIXED_DATETIME'']"

definition HTML_FIELDS :: "string list" where
  "HTML_FIELDS = [''RESULTS'']"

definition BOOL_FIELDS :: "string list" where
  "BOOL_FIELDS = [''IS_IGNORED'', ''IS_DISABLED'', ''SSL'']"

definition INT_FIELDS :: "string list" where
  "INT_FIELDS = [''UNIQUE_VULN_ID'', ''QID'', ''SEVERITY'', ''TIMES_FOUND'', ''PORT'']"

text \<open>The QDS node: an attribute \<^verbatim>\<open>@severity\<close> and a text \<^verbatim>\<open>#text\<close>.\<close>

definition convert_qds :: "Detection \<Rightarrow> error + Detection" where
  "convert_qds d =
     (if truthy (QDS d) then
        and_then (getitem (QDS d) ''@severity'') (\<lambda>sev.
        and_then (getitem (QDS d) ''#text'') (\<lambda>txt.
        and_then (py_int txt) (\<lambda>score.
        Inr (d\<lparr>QDS := PQDS sev (PInt score)\<rparr>))))
      else Inr d)"

text \<open>
  The QDS_FACTORS node holds, under QDS_FACTOR, a list of factor mappings or one factor
  mapping alone.
\<close>

definition qds_factor :: "pyval \<Rightarrow> error + pyval" where
  "qds_factor factor =
     and_then (getitem factor ''@name'') (\<lambda>name.
     and_then (getitem factor ''#text'') (\<lambda>val.
     Inr (PQDSFactor name val)))"

fun map_err :: "('a \<Rightarrow> error + 'b) \<Rightarrow> 'a list \<Rightarrow> error + 'b list" where
  "map_err f [] = Inr []"
| "map_err f (x # xs) =
     and_then (f x) (\<lambda>y. and_then (map_err f xs) (\<lambda>ys. Inr (y # ys)))"

definition convert_qds_factors :: "Detection \<Rightarrow> error + Detection" where
  "convert_qds_factors d =
     (if truthy (QDS_FACTORS d) then
        and_then (getitem (QDS_FACTORS d) ''QDS_FACTOR'') (\<lambda>node.
        case node of
          PList factors \<Rightarrow>
            and_then (map_err qds_factor factors) (\<lambda>fs. Inr (d\<lparr>QDS_FACTORS := PList fs\<rparr>))
        | _ \<Rightarrow>
            and_then (qds_factor node) (\<lambda>f. Inr (d\<lparr>QDS_FACTORS := PList [f]\<rparr>)))
      else Inr d)"

definition post_init :: "lib \<Rightarrow> Detection \<Rightarrow> error + Detection" where
  "post_init L d =
     and_then (for_fields (to_datetime L) DATETIME_FIELDS d) (\<lambda>d1.
     and_then (for_fields (get_text L) HTML_FIELDS d1) (\<lambda>d2.
     and_then (for_fields to_bool BOOL_FIELDS d2) (\<lambda>d3.
     and_then (for_fields to_int INT_FIELDS d3) (\<lambda>d4.
     and_then (convert_qds d4) (\<lambda>d5.
     convert_qds_factors d5)))))"

text \<open>
  The generated constructor, called with keyword arguments: a keyword that is no field
  is refused first, then the required fields without a value; each field is then set to
  the value given for it or to its default, and \<^verbatim>\<open>__post_init__\<close> runs on the result.
  (A required field has no default: the one written below is never read.)
\<close>

definition arg :: "pydict \<Rightarrow> string \<Rightarrow> pyval \<Rightarrow> pyval" where
  "arg kwargs n dflt = (case dict_get kwargs n of Some v \<Rightarrow> v | None \<Rightarrow> dflt)"

definition bind_fields :: "pydict \<Rightarrow> error + Detection" where
  "bind_fields kwargs =
     (case filter (\<lambda>k. k \<notin> set field_names) (dict_keys kwargs) of
        k # ks \<Rightarrow> Inl (TypeError_unexpected k)
      | [] \<Rightarrow>
          (case filter (\<lambda>k. k \<notin> set (dict_keys kwargs)) required_fields of
             m # ms \<Rightarrow> Inl (TypeError_missing (m # ms))
           | [] \<Rightarrow>
               Inr \<lparr>UNIQUE_VULN_ID = arg kwargs ''UNIQUE_VULN_ID'' PNone,
                    QID = arg kwargs ''QID'' PNone,
                    TYPE' = arg kwargs ''TYPE'' PNone,
                    SEVERITY = arg kwargs ''SEVERITY'' PNone,
                    STATUS = arg kwargs ''STATUS'' PNone,
                    SSL = arg kwargs ''SSL'' (PBool False),
                    RESULTS = arg kwargs ''RESULTS'' (PStr []),
                    FIRST_FOUND_DATETIME = arg kwargs ''FIRST_FOUND_DATETIME'' PNone,
                    LAST_FOUND_DATETIME = arg kwargs ''LAST_FOUND_DATETIME'' PNone,
                    QDS = arg kwargs ''QDS'' PNone,
                    QDS_FACTORS = arg kwargs ''QDS_FACTORS'' PNone,
                    TIMES_FOUND = arg kwargs ''TIMES_FOUND'' (PInt 0),
                    LAST_TEST_DATETIME = arg kwargs ''LAST_TEST_DATETIME'' PNone,
                    LAST_UPDATE_DATETIME = arg kwargs ''LAST_UPDATE_DATETIME'' PNone,
                    IS_IGNORED = arg kwargs ''IS_IGNORED'' (PBool False),
                    IS_DISABLED = arg kwargs ''IS_DISABLED'' (PBool False),
                    LAST_PROCESSED_DATETIME = arg kwargs ''LAST_PROCESSED_DATETIME'' PNone,
                    LAST_FIXED_DATETIME = arg kwargs ''LAST_FIXED_DATETIME'' PNone,
                    PORT = arg kwargs ''PORT'' PNone,
                    PROTOCOL = arg kwargs ''PROTOCOL'' PNone,
                    FQDN = arg kwargs ''FQDN'' PNone\<rparr>))"

definition Detection_init :: "lib \<Rightarrow> pydict \<Rightarrow> error + Detection" where
  "Detection_init L kwargs = and_then (bind_fields kwargs) (post_init L)"

subsection \<open>copy, to_dict, from_dict\<close>




definition required_keys :: "string list" where
  "required_keys = [''QID'', ''SEVERITY'', ''STATUS'', ''TYPE'']"

definition from_dict :: "lib \<Rightarrow> pydict \<Rightarrow> error + Detection" where
  "from_dict L data =
     (if \<not> list_all (\<lambda>k. k \<in> set (dict_keys data)) required_keys
      then Inl (ValueError_keys required_keys)
      else Detection_init L data)"

subsection \<open>Equality and order\<close>

text \<open>
  The class is declared with \<^verbatim>\<open>order=True\<close>: the generated comparison methods compare
  the tuples of the fields that take part in comparison, in declaration order. Every
  field declared with \<^verbatim>\<open>compare=False\<close> is left out; QID, TYPE and SEVERITY remain.
\<close>

definition compare_fields :: "Detection \<Rightarrow> pyval list" where
  "compare_fields d = [QID d, TYPE' d, SEVERITY d]"

definition Detection_eq :: "Detection \<Rightarrow> Detection \<Rightarrow> bool" where
  "Detection_eq a b = py_eq_list (compare_fields a) (compare_fields b)"

definition Detection_cmp :: "cmp_op \<Rightarrow> Detection \<Rightarrow> Detection \<Rightarrow> error + bool" where
  "Detection_cmp op a b = py_cmp_list op (compare_fields a) (compare_fields b)"


section \<open>Reports (\<^verbatim>\<open>reports.py\<close>)\<close>

text \<open>
  The transport \<^verbatim>\<open>call_api\<close>, the XML parser \<^verbatim>\<open>xml_parser\<close> and the two record classes
  \<^verbatim>\<open>VMDRReport\<close> and \<^verbatim>\<open>ReportTemplate\<close> are collaborators defined elsewhere: they are
  parameters of the model. A request is what \<^verbatim>\<open>call_api\<close> is called with; the options
  travel either as \<^verbatim>\<open>params\<close> (query parameters) or as \<^verbatim>\<open>payload\<close> (request body), the
  other one being left out of the call.
\<close>

record request =
  module :: string
  endpoint :: string
  params :: "pydict option"
  payload :: "pydict option"
  headers :: "(string \<times> string) list"

datatype response = Response (text': string)

record ('auth, 'report, 'template) env =
  call_api :: "'auth \<Rightarrow> request \<Rightarrow> error + response"
  xml_parser :: "string \<Rightarrow> error + pyval"
  VMDRReport_from_dict :: "pyval \<Rightarrow> error + 'report"
  ReportTemplate_from_dict :: "pyval \<Rightarrow> error + 'template"

definition sdk_headers :: "(string \<times> string) list" where
  "sdk_headers = [(''X-Requested-With'', ''qualyspy SDK'')]"

definition manage_reports ::
    "('auth, 'r, 't) env \<Rightarrow> 'auth \<Rightarrow> string \<Rightarrow> pydict \<Rightarrow> error + response" where
  "manage_reports E auth action kwargs =
     (let kwargs = dict_set ''action'' (PStr action) kwargs;
          kwargs = dict_set ''echo_request'' (PBool False) kwargs
      in
        if action = ''list'' then
          call_api E auth
            \<lparr>module = ''vmdr'', endpoint = ''get_report_list'',
             params = Some kwargs, payload = None, headers = sdk_headers\<rparr>
        else if action = ''launch'' then
          call_api E auth
            \<lparr>module = ''vmdr'', endpoint = ''launch_report'',
             params = None, payload = Some kwargs, headers = sdk_headers\<rparr>
        else Inl (NotImplementedError (''Action '' @ action @ '' is not implemented yet.'')))"

text \<open>
  \<^verbatim>\<open>manage_reports(auth, action=..., **kwargs)\<close>: a key \<^verbatim>\<open>action\<close> among the caller's
  options collides with the keyword given explicitly, and the call itself fails.
\<close>

definition call_manage_reports ::
    "('auth, 'r, 't) env \<Rightarrow> 'auth \<Rightarrow> string \<Rightarrow> pydict \<Rightarrow> error + response" where
  "call_manage_reports E auth action kwargs =
     (if ''action'' \<in> set (dict_keys kwargs) then Inl (TypeError_multiple ''action'')
      else manage_reports E auth action kwargs)"

text \<open>Iterating over a value: the items of a list, the characters of a string, the keys of a mapping.\<close>

fun py_iter :: "pyval \<Rightarrow> error + pyval list" where
  "py_iter (PList xs) = Inr xs"
| "py_iter (PStr s) = Inr (map (\<lambda>c. PStr [c]) s)"
| "py_iter (PDict d) = Inr (map PStr (dict_keys d))"
| "py_iter v = Inl (TypeError ''object is not iterable'')"

definition get_report_list ::
    "('auth, 'r, 't) env \<Rightarrow> 'auth \<Rightarrow> pydict \<Rightarrow> error + 'r list" where
  "get_report_list E auth kwargs =
     and_then (call_manage_reports E auth ''list'' kwargs) (\<lambda>response.
     and_then (xml_parser E (text' response)) (\<lambda>data.
     and_then (getitem data ''REPORT_LIST_OUTPUT'') (\<lambda>out.
     and_then (getitem out ''RESPONSE'') (\<lambda>resp.
     and_then (getitem resp ''REPORT_LIST'') (\<lambda>lst.
     and_then (getitem lst ''REPORT'') (\<lambda>reports.
     and_then (py_iter (if is_dict reports then PList [reports] else reports)) (\<lambda>rs.
     map_err (VMDRReport_from_dict E) rs)))))))"

text \<open>\<^verbatim>\<open>k in x\<close> for a string \<^verbatim>\<open>k\<close>: a key of a mapping, an item of a list, a part of a string.\<close>

fun is_infix :: "string \<Rightarrow> string \<Rightarrow> bool" where
  "is_infix k [] = (k = [])"
| "is_infix k (c # cs) = (take (length k) (c # cs) = k \<or> is_infix k cs)"

fun py_contains :: "pyval \<Rightarrow> string \<Rightarrow> error + bool" where
  "py_contains (PDict d) k = Inr (k \<in> set (dict_keys d))"
| "py_contains (PList xs) k = Inr (list_ex (\<lambda>x. py_eq x (PStr k)) xs)"
| "py_contains (PStr s) k = Inr (is_infix k s)"
| "py_contains v k = Inl (TypeError ''argument is not iterable'')"

definition get_template_list ::
    "('auth, 'r, 't) env \<Rightarrow> 'auth \<Rightarrow> error + 't list" where
  "get_template_list E auth =
     and_then (call_api E auth
        \<lparr>module = ''vmdr'', endpoint = ''get_template_list'',
         params = None, payload = None, headers = sdk_headers\<rparr>) (\<lambda>response.
     and_then (xml_parser E (text' response)) (\<lambda>data.
     and_then (py_contains data ''SIMPLE_RETURN'') (\<lambda>soft.
     if soft then
       and_then (getitem data ''SIMPLE_RETURN'') (\<lambda>ret.
       and_then (getitem ret ''RESPONSE'') (\<lambda>resp.
       and_then (getitem resp ''TEXT'') (\<lambda>msg.
       Inl (QualysAPIError msg))))
     else
       and_then (getitem data ''REPORT_TEMPLATE_LIST'') (\<lambda>lst.
       and_then (getitem lst ''REPORT_TEMPLATE'') (\<lambda>templates.
       and_then (py_iter (if is_dict templates then PList [templates] else templates)) (\<lambda>ts.
       map_err (ReportTemplate_from_dict E) ts))))))"

text \<open>
  \<^verbatim>\<open>launch_report\<close>: the identifier sits at
  SIMPLE_RETURN / RESPONSE / ITEM_LIST / ITEM / VALUE. Only a KeyError of that lookup is
  caught; the handler then reads SIMPLE_RETURN / RESPONSE / TEXT.
\<close>

definition item_value :: "pyval \<Rightarrow> error + int" where
  "item_value data =
     and_then (getitem data ''SIMPLE_RETURN'') (\<lambda>ret.
     and_then (getitem ret ''RESPONSE'') (\<lambda>resp.
     and_then (getitem resp ''ITEM_LIST'') (\<lambda>lst.
     and_then (getitem lst ''ITEM'') (\<lambda>item.
     and_then (getitem item ''VALUE'') (\<lambda>v.
     py_int v)))))"

definition envelope_text :: "pyval \<Rightarrow> error + pyval" where
  "envelope_text data =
     and_then (getitem data ''SIMPLE_RETURN'') (\<lambda>ret.
     and_then (getitem ret ''RESPONSE'') (\<lambda>resp.
     getitem resp ''TEXT''))"

fun is_KeyError :: "error \<Rightarrow> bool" where
  "is_KeyError (KeyError k) = True"
| "is_KeyError e = False"

definition read_report_id :: "pyval \<Rightarrow> error + int" where
  "read_report_id data =
     (case item_value data of
        Inr n \<Rightarrow> Inr n
      | Inl e \<Rightarrow>
          if is_KeyError e then and_then (envelope_text data) (\<lambda>msg. Inl (QualysAPIError msg))
          else Inl e)"

definition launch_report ::
    "('auth, 'r, 't) env \<Rightarrow> 'auth \<Rightarrow> pyval \<Rightarrow> pydict \<Rightarrow> error + int" where
  "launch_report E auth template_id kwargs =
     (let kwargs = dict_set ''template_id'' template_id kwargs in
      and_then (call_manage_reports E auth ''launch'' kwargs) (\<lambda>response.
      and_then (xml_parser E (text' response)) read_report_id))"

section \<open>Sample inputs\<close>

text \<open>
  A transport that answers every request with the same text, a parser that reads it as
  the given mapping, and record classes that keep the mapping they are given.
\<close>

definition canned :: "pyval \<Rightarrow> (unit, pyval, pyval) env" where
  "canned data =
     \<lparr>call_api = (\<lambda>auth req. Inr (Response ''<xml/>'')),
      xml_parser = (\<lambda>t. Inr data),
      VMDRReport_from_dict = Inr,
      ReportTemplate_from_dict = Inr\<rparr>"

text \<open>The answer of scenario B: the generic envelope alone, with the vendor's message.\<close>

definition scenario_B :: pyval where
  "scenario_B =
     PDict [(''SIMPLE_RETURN'',
       PDict [(''RESPONSE'',
         PDict [(''DATETIME'', PStr ''2024-01-01T00:00:00Z''),
                (''TEXT'', PStr ''No reports matched your search criteria.'')])])]"

text \<open>The options as \<^verbatim>\<open>manage_reports\<close> sends them: the caller's, then the two it sets.\<close>

definition outgoing :: "string \<Rightarrow> pydict \<Rightarrow> pydict" where
  "outgoing action kwargs =
     dict_set ''echo_request'' (PBool False) (dict_set ''action'' (PStr action) kwargs)"

text \<open>The answer to a successful launch: the envelope with the identifier of the new report.\<close>

definition launch_ok :: pyval where
  "launch_ok =
     PDict [(''SIMPLE_RETURN'',
       PDict [(''RESPONSE'',
         PDict [(''DATETIME'', PStr ''2024-01-01T00:00:00Z''),
                (''TEXT'', PStr ''New report launched''),
                (''ITEM_LIST'',
                   PDict [(''ITEM'', PDict [(''KEY'', PStr ''ID''), (''VALUE'', PStr ''1234'')])])])])]"

text \<open>Two answers to a launch where a node on the way to the identifier is no mapping:
  an empty ITEM_LIST, and an ITEM that is a list of items.\<close>

definition launch_no_items :: pyval where
  "launch_no_items =
     PDict [(''SIMPLE_RETURN'',
       PDict [(''RESPONSE'',
         PDict [(''DATETIME'', PStr ''2024-01-01T00:00:00Z''),
                (''TEXT'', PStr ''Report not launched''),
                (''ITEM_LIST'', PNone)])])]"

definition launch_items :: pyval where
  "launch_items =
     PDict [(''SIMPLE_RETURN'',
       PDict [(''RESPONSE'',
         PDict [(''DATETIME'', PStr ''2024-01-01T00:00:00Z''),
                (''TEXT'', PStr ''New report launched''),
                (''ITEM_LIST'',
                   PDict [(''ITEM'',
                     PList [PDict [(''KEY'', PStr ''ID''), (''VALUE'', PStr ''1234'')]])])])])]"

text \<open>
  A stand-in for the two library functions: the text is what stands outside the tags,
  and one date is understood.
\<close>

fun outside_tags :: "bool \<Rightarrow> string \<Rightarrow> string" where
  "outside_tags inside [] = []"
| "outside_tags inside (c # cs) =
     (if c = CHR ''<'' then outside_tags True cs
      else if inside then outside_tags (c \<noteq> CHR ''>'') cs
      else c # outside_tags False cs)"

definition demo_lib :: lib where
  "demo_lib =
     \<lparr>html_text = outside_tags False,
      fromisoformat = (\<lambda>s. if s = ''1970-01-01'' then Some (Naive 0) else None)\<rparr>"

text \<open>Keyword arguments of a constructor call that gives None for RESULTS.\<close>

definition results_none :: pydict where
  "results_none =
     [(''UNIQUE_VULN_ID'', PStr ''1''), (''QID'', PStr ''12345''), (''TYPE'', PStr ''Confirmed''),
      (''SEVERITY'', PStr ''3''), (''STATUS'', PStr ''Active''), (''RESULTS'', PNone)]"

text \<open>The answer to a report listing, around the REPORT node.\<close>

definition report_answer :: "pyval \<Rightarrow> pyval" where
  "report_answer reports =
     PDict [(''REPORT_LIST_OUTPUT'',
       PDict [(''RESPONSE'',
         PDict [(''DATETIME'', PStr ''2024-01-01T00:00:00Z''),
                (''REPORT_LIST'', PDict [(''REPORT'', reports)])])])]"

text \<open>The two factors of scenario C.\<close>

definition factor_A :: pyval where
  "factor_A = PDict [(''@name'', PStr ''A''), (''#text'', PStr ''1'')]"

definition factor_B :: pyval where
  "factor_B = PDict [(''@name'', PStr ''B''), (''#text'', PStr ''2'')]"

text \<open>Keyword arguments that give the five required fields of a detection.\<close>

definition detection_args :: pydict where
  "detection_args =
     [(''UNIQUE_VULN_ID'', PStr ''1''), (''QID'', PStr ''12345''), (''TYPE'', PStr ''Confirmed''),
      (''SEVERITY'', PStr ''3''), (''STATUS'', PStr ''Active'')]"

text \<open>The fields as the constructor binds them for these arguments, before \<^verbatim>\<open>__post_init__\<close>.\<close>

definition raw_detection :: Detection where
  "raw_detection =
     \<lparr>UNIQUE_VULN_ID = PStr ''1'',
      QID = PStr ''12345'',
      TYPE' = PStr ''Confirmed'',
      SEVERITY = PStr ''3'',
      STATUS = PStr ''Active'',
      SSL = PBool False,
      RESULTS = PStr [],
      FIRST_FOUND_DATETIME = PNone,
      LAST_FOUND_DATETIME = PNone,
      QDS = PNone,
      QDS_FACTORS = PNone,
      TIMES_FOUND = PInt 0,
      LAST_TEST_DATETIME = PNone,
      LAST_UPDATE_DATETIME = PNone,
      IS_IGNORED = PBool False,
      IS_DISABLED = PBool False,
      LAST_PROCESSED_DATETIME = PNone,
      LAST_FIXED_DATETIME = PNone,
      PORT = PNone,
      PROTOCOL = PNone,
      FQDN = PNone\<rparr>"

text \<open>Keyword arguments of a second detection.\<close>

definition potential_args :: pydict where
  "potential_args =
     [(''UNIQUE_VULN_ID'', PStr ''2''), (''QID'', PStr ''12345''), (''TYPE'', PStr ''Potential''),
      (''SEVERITY'', PStr ''3''), (''STATUS'', PStr ''Fixed'')]"

text \<open>The detection built from \<^verbatim>\<open>detection_args\<close>.\<close>

definition confirmed :: Detection where
  "confirmed =
     \<lparr>UNIQUE_VULN_ID = PInt 1,
      QID = PInt 12345,
      TYPE' = PStr ''Confirmed'',
      SEVERITY = PInt 3,
      STATUS = PStr ''Active'',
      SSL = PBool False,
      RESULTS = PStr [],
      FIRST_FOUND_DATETIME = PNone,
      LAST_FOUND_DATETIME = PNone,
      QDS = PNone,
      QDS_FACTORS = PNone,
      TIMES_FOUND = PInt 0,
      LAST_TEST_DATETIME = PNone,
      LAST_UPDATE_DATETIME = PNone,
      IS_IGNORED = PBool False,
      IS_DISABLED = PBool False,
      LAST_PROCESSED_DATETIME = PNone,
      LAST_FIXED_DATETIME = PNone,
      PORT = PNone,
      PROTOCOL = PNone,
      FQDN = PNone\<rparr>"

text \<open>The detection built from \<^verbatim>\<open>potential_args\<close>: the same QID and SEVERITY, another TYPE.\<close>

definition potential :: Detection where
  "potential =
     \<lparr>UNIQUE_VULN_ID = PInt 2,
      QID = PInt 12345,
      TYPE' = PStr ''Potential'',
      SEVERITY = PInt 3,
      STATUS = PStr ''Fixed'',
      SSL = PBool False,
      RESULTS = PStr [],
      FIRST_FOUND_DATETIME = PNone,
      LAST_FOUND_DATETIME = PNone,
      QDS = PNone,
      QDS_FACTORS = PNone,
      TIMES_FOUND = PInt 0,
      LAST_TEST_DATETIME = PNone,
      LAST_UPDATE_DATETIME = PNone,
      IS_IGNORED = PBool False,
      IS_DISABLED = PBool False,
      LAST_PROCESSED_DATETIME = PNone,
      LAST_FIXED_DATETIME = PNone,
      PORT = PNone,
      PROTOCOL = PNone,
      FQDN = PNone\<rparr>"

text \<open>The mapping of scenario A.\<close>

definition scenario_A :: pydict where
  "scenario_A =
     [(''QID'', PStr ''12345''), (''SEVERITY'', PStr ''3''), (''STATUS'', PStr ''Active''),
      (''TYPE'', PStr ''Confirmed''),
      (''QDS'', PDict [(''@severity'', PStr ''2''), (''#text'', PStr ''45'')])]"

text \<open>A mapping without QID and without UNIQUE_VULN_ID.\<close>

definition no_identifiers :: pydict where
  "no_identifiers =
     [(''SEVERITY'', PStr ''3''), (''STATUS'', PStr ''Active''), (''TYPE'', PStr ''Confirmed'')]"





section \<open>Properties\<close>

subsection \<open>Sequencing\<close>

lemma and_then_Inr [simp]: "and_then (Inr x) f = f x"
  by (simp add: and_then_def)

lemma and_then_Inl [simp]: "and_then (Inl e) f = Inl e"
  by (simp add: and_then_def)

subsection \<open>Dispatch of report actions\<close>

text \<open>
  C1. The claim: an answer that holds only the SIMPLE_RETURN envelope makes
  \<^verbatim>\<open>get_report_list\<close> raise QualysAPIError with the envelope's text. The code looks up
  REPORT_LIST_OUTPUT without testing for the envelope: on the answer of scenario B it
  raises KeyError for that key. The sibling \<^verbatim>\<open>get_template_list\<close> makes the test and
  raises QualysAPIError with the text on the same answer.
\<close>

theorem get_report_list_soft_failure:
  "get_report_list (canned scenario_B) () [] = Inl (KeyError ''REPORT_LIST_OUTPUT'')
   \<and> get_template_list (canned scenario_B) () =
       Inl (QualysAPIError (PStr ''No reports matched your search criteria.''))"
  by (simp add: get_report_list_def get_template_list_def canned_def scenario_B_def
      call_manage_reports_def manage_reports_def and_then_def dict_keys_def)

text \<open>
  C5, as stated, fails: the actions cancel, fetch and delete, which the signature of
  \<^verbatim>\<open>manage_reports\<close> lists, are not dispatched to any endpoint.
\<close>

theorem manage_reports_cancel:
  "manage_reports (canned PNone) () ''cancel'' [] =
     Inl (NotImplementedError ''Action cancel is not implemented yet.'')"
  by (simp add: manage_reports_def)

text \<open>
  C5, amended. The action list is sent to module vmdr, endpoint get_report_list, with the
  options as query parameters and no body; the action launch is sent to module vmdr,
  endpoint launch_report, with the options as body and no query parameters; every other
  action, cancel, fetch and delete included, fails with NotImplementedError and nothing is
  sent.
\<close>

theorem manage_reports_dispatch:
  "manage_reports E auth ''list'' kwargs =
     call_api E auth
       \<lparr>module = ''vmdr'', endpoint = ''get_report_list'',
        params = Some (outgoing ''list'' kwargs), payload = None, headers = sdk_headers\<rparr>
   \<and> manage_reports E auth ''launch'' kwargs =
     call_api E auth
       \<lparr>module = ''vmdr'', endpoint = ''launch_report'',
        params = None, payload = Some (outgoing ''launch'' kwargs), headers = sdk_headers\<rparr>
   \<and> (action \<noteq> ''list'' \<and> action \<noteq> ''launch'' \<longrightarrow>
        manage_reports E auth action kwargs =
          Inl (NotImplementedError (''Action '' @ action @ '' is not implemented yet.'')))"
  by (simp add: manage_reports_def outgoing_def Let_def)

theorem manage_reports_dispatch_witness:
  "''delete'' \<noteq> ''list'' \<and> ''delete'' \<noteq> ''launch''
   \<and> manage_reports (canned PNone) () ''delete'' [(''id'', PInt 7)] =
       Inl (NotImplementedError ''Action delete is not implemented yet.'')
   \<and> manage_reports (canned PNone) () ''list'' [(''id'', PInt 7)] = Inr (Response ''<xml/>'')"
  using manage_reports_dispatch [of "canned PNone" "()" "[(''id'', PInt 7)]" "''delete''"]
  by (simp add: canned_def)

text \<open>The one option that \<^verbatim>\<open>manage_reports\<close> fixes whatever the caller gave is \<^verbatim>\<open>echo_request\<close>.\<close>

lemma dict_get_dict_set:
  "dict_get (dict_set k v d) k' = (if k' = k then Some v else dict_get d k')"
  by (induction d) auto

lemma outgoing_echo_request:
  "dict_get (outgoing action kwargs) ''echo_request'' = Some (PBool False)"
  by (simp add: outgoing_def dict_get_dict_set)

text \<open>
  C8. The claim: the header-suppression option is forced to its fixed value whatever the
  caller gave. The documentation of \<^verbatim>\<open>launch_report\<close> says of \<^verbatim>\<open>hide_header\<close> that the SDK
  sets it to True. The code sets \<^verbatim>\<open>template_id\<close>, \<^verbatim>\<open>action\<close> and \<^verbatim>\<open>echo_request\<close> and
  nothing else: a caller's \<^verbatim>\<open>hide_header=False\<close> reaches the transport as it is, and
  without it the body holds no \<^verbatim>\<open>hide_header\<close> at all.
\<close>

theorem launch_report_hide_header:
  "launch_report E auth (PStr ''1'') [(''hide_header'', PBool False)] =
     and_then (call_api E auth
       \<lparr>module = ''vmdr'', endpoint = ''launch_report'', params = None,
        payload = Some [(''hide_header'', PBool False), (''template_id'', PStr ''1''),
                        (''action'', PStr ''launch''), (''echo_request'', PBool False)],
        headers = sdk_headers\<rparr>) (\<lambda>response.
     and_then (xml_parser E (text' response)) read_report_id)
   \<and> launch_report E auth (PStr ''1'') [] =
     and_then (call_api E auth
       \<lparr>module = ''vmdr'', endpoint = ''launch_report'', params = None,
        payload = Some [(''template_id'', PStr ''1''),
                        (''action'', PStr ''launch''), (''echo_request'', PBool False)],
        headers = sdk_headers\<rparr>) (\<lambda>response.
     and_then (xml_parser E (text' response)) read_report_id)"
  by (simp add: launch_report_def call_manage_reports_def manage_reports_def dict_keys_def)

text \<open>
  C7, as stated, fails: only a KeyError of the lookup is caught. When a node on the way
  to the identifier is present and is no mapping, the lookup raises TypeError, which is
  neither the identifier nor QualysAPIError: so for an empty ITEM_LIST, where the
  identifier is absent, and for an ITEM that is a list holding the identifier.
\<close>

theorem launch_report_not_a_mapping:
  "launch_report (canned launch_no_items) () (PStr ''1'') [] =
     Inl (TypeError ''object is not subscriptable'')
   \<and> launch_report (canned launch_items) () (PStr ''1'') [] =
     Inl (TypeError ''list indices must be integers or slices, not str'')"
  by (simp add: launch_report_def call_manage_reports_def manage_reports_def canned_def
      dict_keys_def read_report_id_def item_value_def launch_no_items_def launch_items_def)

text \<open>
  C7, amended. When the transport answers and the answer parses to an envelope
  SIMPLE_RETURN / RESPONSE of mappings: if the response holds ITEM_LIST, a mapping that
  holds ITEM, a mapping that holds VALUE with a decimal literal, \<^verbatim>\<open>launch_report\<close>
  returns its value as an integer; if the identifier is absent because a key is missing
  (no ITEM_LIST in the response, or no ITEM in the ITEM_LIST mapping, or no VALUE in the
  ITEM mapping), it raises QualysAPIError carrying the TEXT of the envelope.
\<close>

theorem launch_report_identifier:
  assumes "call_manage_reports E auth ''launch'' (dict_set ''template_id'' tid kwargs) = Inr response"
      and "xml_parser E (text' response) = Inr (PDict d)"
      and "dict_get d ''SIMPLE_RETURN'' = Some (PDict ret)"
      and "dict_get ret ''RESPONSE'' = Some (PDict resp)"
  shows "(dict_get resp ''ITEM_LIST'' = Some (PDict lst) \<and> dict_get lst ''ITEM'' = Some (PDict item)
           \<and> dict_get item ''VALUE'' = Some (PStr s) \<and> int_of_str s = Some n
          \<longrightarrow> launch_report E auth tid kwargs = Inr n)
       \<and> (dict_get resp ''TEXT'' = Some msg
           \<and> (dict_get resp ''ITEM_LIST'' = None
                \<or> (dict_get resp ''ITEM_LIST'' = Some (PDict lst) \<and> dict_get lst ''ITEM'' = None)
                \<or> (dict_get resp ''ITEM_LIST'' = Some (PDict lst)
                     \<and> dict_get lst ''ITEM'' = Some (PDict item) \<and> dict_get item ''VALUE'' = None))
          \<longrightarrow> launch_report E auth tid kwargs = Inl (QualysAPIError msg))"
  using assms
  by (auto simp add: launch_report_def read_report_id_def item_value_def envelope_text_def)

theorem launch_report_identifier_witness:
  "launch_report (canned launch_ok) () (PStr ''1'') [] = Inr 1234
   \<and> launch_report (canned scenario_B) () (PStr ''1'') [] =
       Inl (QualysAPIError (PStr ''No reports matched your search criteria.''))"
proof -
  have num: "int_of_str ''1234'' = Some 1234"
    by (simp add: int_of_str_def strip_def is_space_def literal_def
        int_max_str_digits_def is_digit_def digit_val_def)
  have ok: "launch_report (canned launch_ok) () (PStr ''1'') [] = Inr 1234"
    using launch_report_identifier
      [where E = "canned launch_ok" and auth = "()" and tid = "PStr ''1''" and kwargs = "[]"
         and response = "Response ''<xml/>''"
         and d = "[(''SIMPLE_RETURN'',
             PDict [(''RESPONSE'',
               PDict [(''DATETIME'', PStr ''2024-01-01T00:00:00Z''),
                      (''TEXT'', PStr ''New report launched''),
                      (''ITEM_LIST'',
                        PDict [(''ITEM'', PDict [(''KEY'', PStr ''ID''), (''VALUE'', PStr ''1234'')])])])])]"
         and ret = "[(''RESPONSE'',
               PDict [(''DATETIME'', PStr ''2024-01-01T00:00:00Z''),
                      (''TEXT'', PStr ''New report launched''),
                      (''ITEM_LIST'',
                        PDict [(''ITEM'', PDict [(''KEY'', PStr ''ID''), (''VALUE'', PStr ''1234'')])])])]"
         and resp = "[(''DATETIME'', PStr ''2024-01-01T00:00:00Z''),
                      (''TEXT'', PStr ''New report launched''),
                      (''ITEM_LIST'',
                        PDict [(''ITEM'', PDict [(''KEY'', PStr ''ID''), (''VALUE'', PStr ''1234'')])])]"
         and lst = "[(''ITEM'', PDict [(''KEY'', PStr ''ID''), (''VALUE'', PStr ''1234'')])]"
         and item = "[(''KEY'', PStr ''ID''), (''VALUE'', PStr ''1234'')]"
         and s = "''1234''" and n = 1234]
      num
    by (simp add: call_manage_reports_def manage_reports_def canned_def dict_keys_def
        launch_ok_def)
  have soft: "launch_report (canned scenario_B) () (PStr ''1'') [] =
       Inl (QualysAPIError (PStr ''No reports matched your search criteria.''))"
    using launch_report_identifier
      [where E = "canned scenario_B" and auth = "()" and tid = "PStr ''1''" and kwargs = "[]"
         and response = "Response ''<xml/>''"
         and d = "[(''SIMPLE_RETURN'',
             PDict [(''RESPONSE'',
               PDict [(''DATETIME'', PStr ''2024-01-01T00:00:00Z''),
                      (''TEXT'', PStr ''No reports matched your search criteria.'')])])]"
         and ret = "[(''RESPONSE'',
               PDict [(''DATETIME'', PStr ''2024-01-01T00:00:00Z''),
                      (''TEXT'', PStr ''No reports matched your search criteria.'')])]"
         and resp = "[(''DATETIME'', PStr ''2024-01-01T00:00:00Z''),
                      (''TEXT'', PStr ''No reports matched your search criteria.'')]"
         and msg = "PStr ''No reports matched your search criteria.''"]
    by (simp add: call_manage_reports_def manage_reports_def canned_def dict_keys_def
        scenario_B_def)
  from ok soft show ?thesis by simp
qed

subsection \<open>Fields by name\<close>

lemma getattr_names [simp]:
  "getattr d ''UNIQUE_VULN_ID'' = UNIQUE_VULN_ID d"
  "getattr d ''QID'' = QID d"
  "getattr d ''TYPE'' = TYPE' d"
  "getattr d ''SEVERITY'' = SEVERITY d"
  "getattr d ''STATUS'' = STATUS d"
  "getattr d ''SSL'' = SSL d"
  "getattr d ''RESULTS'' = RESULTS d"
  "getattr d ''FIRST_FOUND_DATETIME'' = FIRST_FOUND_DATETIME d"
  "getattr d ''LAST_FOUND_DATETIME'' = LAST_FOUND_DATETIME d"
  "getattr d ''QDS'' = QDS d"
  "getattr d ''QDS_FACTORS'' = QDS_FACTORS d"
  "getattr d ''TIMES_FOUND'' = TIMES_FOUND d"
  "getattr d ''LAST_TEST_DATETIME'' = LAST_TEST_DATETIME d"
  "getattr d ''LAST_UPDATE_DATETIME'' = LAST_UPDATE_DATETIME d"
  "getattr d ''IS_IGNORED'' = IS_IGNORED d"
  "getattr d ''IS_DISABLED'' = IS_DISABLED d"
  "getattr d ''LAST_PROCESSED_DATETIME'' = LAST_PROCESSED_DATETIME d"
  "getattr d ''LAST_FIXED_DATETIME'' = LAST_FIXED_DATETIME d"
  "getattr d ''PORT'' = PORT d"
  "getattr d ''PROTOCOL'' = PROTOCOL d"
  "getattr d ''FQDN'' = FQDN d"
  by (simp_all add: getattr_def)

lemma setattr_names [simp]:
  "setattr d ''UNIQUE_VULN_ID'' v = d\<lparr>UNIQUE_VULN_ID := v\<rparr>"
  "setattr d ''QID'' v = d\<lparr>QID := v\<rparr>"
  "setattr d ''TYPE'' v = d\<lparr>TYPE' := v\<rparr>"
  "setattr d ''SEVERITY'' v = d\<lparr>SEVERITY := v\<rparr>"
  "setattr d ''STATUS'' v = d\<lparr>STATUS := v\<rparr>"
  "setattr d ''SSL'' v = d\<lparr>SSL := v\<rparr>"
  "setattr d ''RESULTS'' v = d\<lparr>RESULTS := v\<rparr>"
  "setattr d ''FIRST_FOUND_DATETIME'' v = d\<lparr>FIRST_FOUND_DATETIME := v\<rparr>"
  "setattr d ''LAST_FOUND_DATETIME'' v = d\<lparr>LAST_FOUND_DATETIME := v\<rparr>"
  "setattr d ''QDS'' v = d\<lparr>QDS := v\<rparr>"
  "setattr d ''QDS_FACTORS'' v = d\<lparr>QDS_FACTORS := v\<rparr>"
  "setattr d ''TIMES_FOUND'' v = d\<lparr>TIMES_FOUND := v\<rparr>"
  "setattr d ''LAST_TEST_DATETIME'' v = d\<lparr>LAST_TEST_DATETIME := v\<rparr>"
  "setattr d ''LAST_UPDATE_DATETIME'' v = d\<lparr>LAST_UPDATE_DATETIME := v\<rparr>"
  "setattr d ''IS_IGNORED'' v = d\<lparr>IS_IGNORED := v\<rparr>"
  "setattr d ''IS_DISABLED'' v = d\<lparr>IS_DISABLED := v\<rparr>"
  "setattr d ''LAST_PROCESSED_DATETIME'' v = d\<lparr>LAST_PROCESSED_DATETIME := v\<rparr>"
  "setattr d ''LAST_FIXED_DATETIME'' v = d\<lparr>LAST_FIXED_DATETIME := v\<rparr>"
  "setattr d ''PORT'' v = d\<lparr>PORT := v\<rparr>"
  "setattr d ''PROTOCOL'' v = d\<lparr>PROTOCOL := v\<rparr>"
  "setattr d ''FQDN'' v = d\<lparr>FQDN := v\<rparr>"
  by (simp_all add: setattr_def)

subsection \<open>The markup field\<close>

lemma RESULTS_setattr: "RESULTS (setattr d n v) = (if n = ''RESULTS'' then v else RESULTS d)"
  by (simp add: setattr_def)

lemma for_fields_RESULTS:
  "for_fields f ns d = Inr d' \<Longrightarrow> ''RESULTS'' \<notin> set ns \<Longrightarrow> RESULTS d' = RESULTS d"
proof (induction ns arbitrary: d)
  case Nil
  then show ?case by simp
next
  case (Cons n ns)
  then show ?case
    by (cases "f (getattr d n)") (auto simp: RESULTS_setattr)
qed

lemma for_fields_to_datetime_error:
  "for_fields (to_datetime L) ns d = Inl e \<Longrightarrow> \<exists>s. e = ValueError (''Invalid isoformat string: '' @ s)"
proof (induction ns arbitrary: d)
  case Nil
  then show ?case by simp
next
  case (Cons n ns)
  show ?case
  proof (cases "to_datetime L (getattr d n)")
    case (Inl e')
    with Cons.prems have "e = e'" by simp
    with Inl show ?thesis
      by (auto simp: to_datetime_def split: pyval.splits option.splits)
  next
    case (Inr v)
    with Cons show ?thesis by simp
  qed
qed

lemma post_init_RESULTS_None:
  assumes "RESULTS d = PNone"
  shows "post_init L d = Inl (TypeError ''markup is not a string'')
       \<or> (\<exists>s. post_init L d = Inl (ValueError (''Invalid isoformat string: '' @ s)))"
proof (cases "for_fields (to_datetime L) DATETIME_FIELDS d")
  case (Inl e)
  then show ?thesis
    using for_fields_to_datetime_error [OF Inl] by (auto simp: post_init_def)
next
  case (Inr d1)
  have "RESULTS d1 = PNone"
    using for_fields_RESULTS [OF Inr] assms by (simp add: DATETIME_FIELDS_def)
  then have "for_fields (get_text L) HTML_FIELDS d1 = Inl (TypeError ''markup is not a string'')"
    by (simp add: HTML_FIELDS_def get_text_def)
  with Inr show ?thesis by (simp add: post_init_def)
qed

lemma bind_fields_RESULTS:
  "bind_fields kwargs = Inr d \<Longrightarrow> RESULTS d = arg kwargs ''RESULTS'' (PStr [])"
  by (auto simp: bind_fields_def split: list.splits)

text \<open>
  C10. A constructor call that gives None for RESULTS raises: the markup parser is applied
  to the field with no test before, and it refuses None, whereas the date-time, boolean
  and integer conversions leave None as it is.
\<close>

theorem results_none_raises:
  "(dict_get kwargs ''RESULTS'' = Some PNone \<longrightarrow> (\<exists>e. Detection_init L kwargs = Inl e))
   \<and> get_text L PNone = Inl (TypeError ''markup is not a string'')
   \<and> to_datetime L PNone = Inr PNone \<and> to_bool PNone = Inr PNone \<and> to_int PNone = Inr PNone"
proof -
  have "\<exists>e. Detection_init L kwargs = Inl e" if h: "dict_get kwargs ''RESULTS'' = Some PNone"
  proof (cases "bind_fields kwargs")
    case (Inl e)
    then show ?thesis by (simp add: Detection_init_def)
  next
    case (Inr d)
    have "RESULTS d = PNone"
      using bind_fields_RESULTS [OF Inr] h by (simp add: arg_def)
    from post_init_RESULTS_None [OF this, of L] Inr show ?thesis
      by (auto simp: Detection_init_def)
  qed
  then show ?thesis
    by (simp add: get_text_def to_datetime_def to_bool_def to_int_def)
qed

theorem results_none_raises_witness:
  "dict_get results_none ''RESULTS'' = Some PNone
   \<and> Detection_init demo_lib results_none = Inl (TypeError ''markup is not a string'')
   \<and> (\<exists>e. Detection_init demo_lib results_none = Inl e)"
proof -
  have h: "dict_get results_none ''RESULTS'' = Some PNone"
    by (simp add: results_none_def)
  have "Detection_init demo_lib results_none = Inl (TypeError ''markup is not a string'')"
    by (simp add: Detection_init_def bind_fields_def results_none_def dict_keys_def
        field_names_def required_fields_def arg_def post_init_def DATETIME_FIELDS_def
        HTML_FIELDS_def to_datetime_def get_text_def)
  with h results_none_raises [of results_none demo_lib] show ?thesis by simp
qed

subsection \<open>One element or a list of elements\<close>

lemma and_then_assoc: "and_then (and_then r f) g = and_then r (\<lambda>x. and_then (f x) g)"
  by (cases r) simp_all

lemma and_then_if: "and_then (if c then a else b) f = (if c then and_then a f else and_then b f)"
  by simp

text \<open>The loops of \<^verbatim>\<open>__post_init__\<close>, field by field.\<close>

lemma post_init_unfold:
  "post_init L d =
     and_then (to_datetime L (FIRST_FOUND_DATETIME d)) (\<lambda>t1.
     and_then (to_datetime L (LAST_FOUND_DATETIME d)) (\<lambda>t2.
     and_then (to_datetime L (LAST_TEST_DATETIME d)) (\<lambda>t3.
     and_then (to_datetime L (LAST_UPDATE_DATETIME d)) (\<lambda>t4.
     and_then (to_datetime L (LAST_PROCESSED_DATETIME d)) (\<lambda>t5.
     and_then (to_datetime L (LAST_FIXED_DATETIME d)) (\<lambda>t6.
     and_then (get_text L (RESULTS d)) (\<lambda>r.
     and_then (to_bool (IS_IGNORED d)) (\<lambda>b1.
     and_then (to_bool (IS_DISABLED d)) (\<lambda>b2.
     and_then (to_bool (SSL d)) (\<lambda>b3.
     and_then (to_int (UNIQUE_VULN_ID d)) (\<lambda>i1.
     and_then (to_int (QID d)) (\<lambda>i2.
     and_then (to_int (SEVERITY d)) (\<lambda>i3.
     and_then (to_int (TIMES_FOUND d)) (\<lambda>i4.
     and_then (to_int (PORT d)) (\<lambda>i5.
     and_then (convert_qds
        (d\<lparr>FIRST_FOUND_DATETIME := t1, LAST_FOUND_DATETIME := t2, LAST_TEST_DATETIME := t3,
           LAST_UPDATE_DATETIME := t4, LAST_PROCESSED_DATETIME := t5, LAST_FIXED_DATETIME := t6,
           RESULTS := r, IS_IGNORED := b1, IS_DISABLED := b2, SSL := b3,
           UNIQUE_VULN_ID := i1, QID := i2, SEVERITY := i3, TIMES_FOUND := i4, PORT := i5\<rparr>))
       convert_qds_factors)))))))))))))))"
  by (simp add: post_init_def DATETIME_FIELDS_def HTML_FIELDS_def BOOL_FIELDS_def INT_FIELDS_def
      and_then_assoc)

lemma post_init_bare_wrapped:
  assumes "\<not> is_list f" and "dict_get bare ''QDS_FACTOR'' = Some f"
    and "dict_get wrapped ''QDS_FACTOR'' = Some (PList [f])"
  shows "post_init L (d\<lparr>QDS_FACTORS := PDict bare\<rparr>) = post_init L (d\<lparr>QDS_FACTORS := PDict wrapped\<rparr>)"
proof -
  from assms have ne: "bare \<noteq> []" "wrapped \<noteq> []" by auto
  have b: "getitem (PDict bare) ''QDS_FACTOR'' = Inr f" using assms by simp
  have w: "getitem (PDict wrapped) ''QDS_FACTOR'' = Inr (PList [f])" using assms by simp
  have c: "(case f of PList factors \<Rightarrow> g factors | _ \<Rightarrow> h) = h" for g and h :: "error + Detection"
    using assms(1) by (cases f) simp_all
  show ?thesis
  proof (cases "truthy (QDS d)")
    case True
    then show ?thesis
      by (simp add: post_init_unfold convert_qds_def convert_qds_factors_def
          and_then_assoc ne b w c del: getitem.simps)
  next
    case False
    then show ?thesis
      by (simp add: post_init_unfold convert_qds_def convert_qds_factors_def
          and_then_assoc ne b w c del: getitem.simps)
  qed
qed

text \<open>
  C6. One element alone and the same element in a list of one give the same result:
  for the QDS_FACTOR node of a detection, whatever the other fields, and for the REPORT
  node of a report listing. A node with the list of the factors A and B gives the two
  factor records in that order, a node with the factor A alone gives a list of one, and
  \<^verbatim>\<open>get_report_list\<close> returns a collection of one for a REPORT mapping alone.
\<close>

theorem singular_plural:
  "(\<not> is_list f \<and> dict_get bare ''QDS_FACTOR'' = Some f
      \<and> dict_get wrapped ''QDS_FACTOR'' = Some (PList [f])
     \<longrightarrow> post_init L (d\<lparr>QDS_FACTORS := PDict bare\<rparr>) =
         post_init L (d\<lparr>QDS_FACTORS := PDict wrapped\<rparr>))
   \<and> convert_qds_factors (d\<lparr>QDS_FACTORS := PDict [(''QDS_FACTOR'', PList [factor_A, factor_B])]\<rparr>) =
       Inr (d\<lparr>QDS_FACTORS :=
              PList [PQDSFactor (PStr ''A'') (PStr ''1''), PQDSFactor (PStr ''B'') (PStr ''2'')]\<rparr>)
   \<and> convert_qds_factors (d\<lparr>QDS_FACTORS := PDict [(''QDS_FACTOR'', factor_A)]\<rparr>) =
       Inr (d\<lparr>QDS_FACTORS := PList [PQDSFactor (PStr ''A'') (PStr ''1'')]\<rparr>)
   \<and> get_report_list (E\<lparr>xml_parser := \<lambda>t. Inr (report_answer (PDict r))\<rparr>) auth kwargs =
       and_then (call_manage_reports E auth ''list'' kwargs) (\<lambda>response.
       and_then (VMDRReport_from_dict E (PDict r)) (\<lambda>x. Inr [x]))
   \<and> get_report_list (E\<lparr>xml_parser := \<lambda>t. Inr (report_answer (PList [PDict r]))\<rparr>) auth kwargs =
       get_report_list (E\<lparr>xml_parser := \<lambda>t. Inr (report_answer (PDict r))\<rparr>) auth kwargs"
proof -
  have a: "post_init L (d\<lparr>QDS_FACTORS := PDict bare\<rparr>) = post_init L (d\<lparr>QDS_FACTORS := PDict wrapped\<rparr>)"
    if "\<not> is_list f" "dict_get bare ''QDS_FACTOR'' = Some f"
       "dict_get wrapped ''QDS_FACTOR'' = Some (PList [f])"
    using that by (rule post_init_bare_wrapped)
  have b: "convert_qds_factors (d\<lparr>QDS_FACTORS := PDict [(''QDS_FACTOR'', PList [factor_A, factor_B])]\<rparr>) =
       Inr (d\<lparr>QDS_FACTORS :=
              PList [PQDSFactor (PStr ''A'') (PStr ''1''), PQDSFactor (PStr ''B'') (PStr ''2'')]\<rparr>)"
    by (simp add: convert_qds_factors_def qds_factor_def factor_A_def factor_B_def)
  have c: "convert_qds_factors (d\<lparr>QDS_FACTORS := PDict [(''QDS_FACTOR'', factor_A)]\<rparr>) =
       Inr (d\<lparr>QDS_FACTORS := PList [PQDSFactor (PStr ''A'') (PStr ''1'')]\<rparr>)"
    by (simp add: convert_qds_factors_def qds_factor_def factor_A_def)
  have call: "call_manage_reports (E\<lparr>xml_parser := p\<rparr>) auth ''list'' kwargs =
      call_manage_reports E auth ''list'' kwargs" for p
    by (simp add: call_manage_reports_def manage_reports_def)
  have e1: "get_report_list (E\<lparr>xml_parser := \<lambda>t. Inr (report_answer (PDict r))\<rparr>) auth kwargs =
       and_then (call_manage_reports E auth ''list'' kwargs) (\<lambda>response.
       and_then (VMDRReport_from_dict E (PDict r)) (\<lambda>x. Inr [x]))"
    by (simp add: get_report_list_def call report_answer_def)
  have e2: "get_report_list (E\<lparr>xml_parser := \<lambda>t. Inr (report_answer (PList [PDict r]))\<rparr>) auth kwargs =
       and_then (call_manage_reports E auth ''list'' kwargs) (\<lambda>response.
       and_then (VMDRReport_from_dict E (PDict r)) (\<lambda>x. Inr [x]))"
    by (simp add: get_report_list_def call report_answer_def)
  from a b c e1 e2 show ?thesis by simp
qed

theorem singular_plural_witness:
  "\<not> is_list factor_A
   \<and> bind_fields detection_args = Inr raw_detection
   \<and> post_init demo_lib (raw_detection\<lparr>QDS_FACTORS := PDict [(''QDS_FACTOR'', factor_A)]\<rparr>) =
     post_init demo_lib (raw_detection\<lparr>QDS_FACTORS := PDict [(''QDS_FACTOR'', PList [factor_A])]\<rparr>)
   \<and> and_then (post_init demo_lib (raw_detection\<lparr>QDS_FACTORS := PDict [(''QDS_FACTOR'', factor_A)]\<rparr>))
        (\<lambda>d. Inr (QDS_FACTORS d)) = Inr (PList [PQDSFactor (PStr ''A'') (PStr ''1'')])
   \<and> get_report_list (canned (report_answer (PDict [(''ID'', PStr ''7'')]))) () [] =
       Inr [PDict [(''ID'', PStr ''7'')]]
   \<and> get_report_list (canned (report_answer (PList [PDict [(''ID'', PStr ''7'')]]))) () [] =
       Inr [PDict [(''ID'', PStr ''7'')]]"
proof -
  have n: "\<not> is_list factor_A" by (simp add: factor_A_def)
  have b: "bind_fields detection_args = Inr raw_detection"
    by (simp add: bind_fields_def detection_args_def dict_keys_def field_names_def
        required_fields_def arg_def raw_detection_def)
  have "post_init demo_lib (raw_detection\<lparr>QDS_FACTORS := PDict [(''QDS_FACTOR'', factor_A)]\<rparr>) =
     post_init demo_lib (raw_detection\<lparr>QDS_FACTORS := PDict [(''QDS_FACTOR'', PList [factor_A])]\<rparr>)"
    using n singular_plural [where f = factor_A and bare = "[(''QDS_FACTOR'', factor_A)]"
        and wrapped = "[(''QDS_FACTOR'', PList [factor_A])]" and L = demo_lib
        and d = raw_detection, THEN conjunct1]
    by simp
  moreover have "and_then (post_init demo_lib (raw_detection\<lparr>QDS_FACTORS := PDict [(''QDS_FACTOR'', factor_A)]\<rparr>))
        (\<lambda>d. Inr (QDS_FACTORS d)) = Inr (PList [PQDSFactor (PStr ''A'') (PStr ''1'')])"
    by (simp add: post_init_def raw_detection_def DATETIME_FIELDS_def
        HTML_FIELDS_def BOOL_FIELDS_def INT_FIELDS_def to_datetime_def get_text_def to_bool_def
        to_int_def convert_qds_def convert_qds_factors_def qds_factor_def factor_A_def
        int_of_str_def strip_def is_space_def literal_def
        int_max_str_digits_def is_digit_def digit_val_def)
  moreover have "get_report_list (canned (report_answer (PDict [(''ID'', PStr ''7'')]))) () [] =
       Inr [PDict [(''ID'', PStr ''7'')]]"
    by (simp add: get_report_list_def canned_def report_answer_def call_manage_reports_def
        manage_reports_def dict_keys_def)
  moreover have "get_report_list (canned (report_answer (PList [PDict [(''ID'', PStr ''7'')]]))) () [] =
       Inr [PDict [(''ID'', PStr ''7'')]]"
    by (simp add: get_report_list_def canned_def report_answer_def call_manage_reports_def
        manage_reports_def dict_keys_def)
  ultimately show ?thesis using n b by simp
qed

subsection \<open>Equality and order of detections\<close>

lemma py_eq_list_refl: "(\<And>x. x \<in> set xs \<Longrightarrow> py_eq x x) \<Longrightarrow> py_eq_list xs xs"
  by (induction xs) simp_all

lemma py_eq_item_member: "(k, v) \<in> set ys \<Longrightarrow> py_eq v v \<Longrightarrow> py_eq_item k v ys"
  by (induction ys) auto

lemma py_eq_items_subset:
  "(\<And>k v. (k, v) \<in> set xs \<Longrightarrow> py_eq v v) \<Longrightarrow> set xs \<subseteq> set ys \<Longrightarrow> py_eq_items xs ys"
proof (induction xs)
  case Nil
  then show ?case by simp
next
  case (Cons kv xs)
  obtain k v where kv: "kv = (k, v)" by (cases kv)
  with Cons.prems have "py_eq_item k v ys"
    by (intro py_eq_item_member) auto
  moreover from Cons have "py_eq_items xs ys" by auto
  ultimately show ?case using kv by simp
qed

lemma py_eq_refl: "py_eq v v"
proof (induction v)
  case (PList xs)
  then show ?case by (simp add: py_eq_list_refl)
next
  case (PDict xs)
  have "py_eq_items xs xs"
  proof (rule py_eq_items_subset)
    fix k v assume "(k, v) \<in> set xs"
    then show "py_eq v v" using PDict by fastforce
  qed simp
  then show ?case by simp
qed simp_all

lemma py_cmp_list_refl: "py_cmp_list op xs xs = Inr (cmp_on op (0::nat) 0)"
  by (induction xs) (simp_all add: py_eq_refl)

text \<open>
  C2, as stated, fails: two detections with the same QID and the same SEVERITY and
  different TYPE are not equal, and one is less than the other.
\<close>

theorem detection_type_compared:
  "from_dict demo_lib detection_args = Inr confirmed
   \<and> from_dict demo_lib potential_args = Inr potential
   \<and> QID confirmed = QID potential \<and> SEVERITY confirmed = SEVERITY potential
   \<and> \<not> Detection_eq confirmed potential
   \<and> Detection_cmp Lt confirmed potential = Inr True
   \<and> Detection_cmp Lt potential confirmed = Inr False"
proof -
  have num: "int_of_str ''12345'' = Some 12345" "int_of_str ''3'' = Some 3"
    "int_of_str ''1'' = Some 1" "int_of_str ''2'' = Some 2"
    by (simp_all add: int_of_str_def strip_def is_space_def literal_def
        int_max_str_digits_def is_digit_def digit_val_def)
  have a: "from_dict demo_lib detection_args = Inr confirmed"
    by (simp add: from_dict_def required_keys_def dict_keys_def detection_args_def
        Detection_init_def bind_fields_def field_names_def required_fields_def arg_def
        post_init_unfold to_datetime_def get_text_def to_bool_def to_int_def num
        convert_qds_def convert_qds_factors_def demo_lib_def confirmed_def)
  have b: "from_dict demo_lib potential_args = Inr potential"
    by (simp add: from_dict_def required_keys_def dict_keys_def potential_args_def
        Detection_init_def bind_fields_def field_names_def required_fields_def arg_def
        post_init_unfold to_datetime_def get_text_def to_bool_def to_int_def num
        convert_qds_def convert_qds_factors_def demo_lib_def potential_def)
  have c: "\<not> Detection_eq confirmed potential"
    "Detection_cmp Lt confirmed potential = Inr True"
    "Detection_cmp Lt potential confirmed = Inr False"
    by (simp_all add: Detection_eq_def Detection_cmp_def compare_fields_def confirmed_def
        potential_def)
  from a b c show ?thesis by (simp add: confirmed_def potential_def)
qed

text \<open>
  C2, amended. Equality and order of detections are determined by QID, TYPE and SEVERITY
  alone, compared as a tuple in that order: two detections are equal when they are equal
  in all three fields, and otherwise they are ordered as their first differing field
  among QID, TYPE, SEVERITY is. Two detections that agree on these three fields are
  equal, neither is less than the other, and they compare in the same way with any third
  detection, whatever their other fields hold.
\<close>

theorem detection_compare_fields:
  "Detection_eq a b =
     (py_eq (QID a) (QID b) \<and> py_eq (TYPE' a) (TYPE' b) \<and> py_eq (SEVERITY a) (SEVERITY b))
   \<and> Detection_cmp op a b =
     (if \<not> py_eq (QID a) (QID b) then py_cmp op (QID a) (QID b)
      else if \<not> py_eq (TYPE' a) (TYPE' b) then py_cmp op (TYPE' a) (TYPE' b)
      else if \<not> py_eq (SEVERITY a) (SEVERITY b) then py_cmp op (SEVERITY a) (SEVERITY b)
      else Inr (cmp_on op (0::nat) 0))
   \<and> (QID a = QID b \<and> TYPE' a = TYPE' b \<and> SEVERITY a = SEVERITY b \<longrightarrow>
        Detection_eq a b
        \<and> Detection_cmp op a b = Inr (cmp_on op (0::nat) 0)
        \<and> Detection_eq a c = Detection_eq b c \<and> Detection_eq c a = Detection_eq c b
        \<and> Detection_cmp op a c = Detection_cmp op b c
        \<and> Detection_cmp op c a = Detection_cmp op c b)"
  using py_cmp_list_refl [of op "compare_fields b"]
  by (simp add: Detection_eq_def Detection_cmp_def compare_fields_def py_eq_refl)

theorem detection_compare_fields_witness:
  "QID confirmed = QID (confirmed\<lparr>UNIQUE_VULN_ID := PInt 9, STATUS := PStr ''Fixed'', TIMES_FOUND := PInt 4\<rparr>)
   \<and> Detection_eq confirmed (confirmed\<lparr>UNIQUE_VULN_ID := PInt 9, STATUS := PStr ''Fixed'', TIMES_FOUND := PInt 4\<rparr>)
   \<and> Detection_cmp Lt confirmed (confirmed\<lparr>UNIQUE_VULN_ID := PInt 9, STATUS := PStr ''Fixed'', TIMES_FOUND := PInt 4\<rparr>)
       = Inr False
   \<and> Detection_cmp Lt (confirmed\<lparr>UNIQUE_VULN_ID := PInt 9, STATUS := PStr ''Fixed'', TIMES_FOUND := PInt 4\<rparr>) potential
       = Inr True
   \<and> \<not> Detection_eq (potential\<lparr>QID := PInt 1, SEVERITY := PInt 5\<rparr>) (confirmed\<lparr>SEVERITY := PInt 1\<rparr>)
   \<and> Detection_cmp Lt (potential\<lparr>QID := PInt 1, SEVERITY := PInt 5\<rparr>) (confirmed\<lparr>SEVERITY := PInt 1\<rparr>)
       = Inr True
   \<and> \<not> Detection_eq confirmed (confirmed\<lparr>SEVERITY := PInt 4\<rparr>)
   \<and> Detection_cmp Lt confirmed (confirmed\<lparr>SEVERITY := PInt 4\<rparr>) = Inr True
   \<and> Detection_cmp Lt (confirmed\<lparr>SEVERITY := PInt 4\<rparr>) potential = Inr True"
  using detection_compare_fields
    [of confirmed "confirmed\<lparr>UNIQUE_VULN_ID := PInt 9, STATUS := PStr ''Fixed'', TIMES_FOUND := PInt 4\<rparr>"
        Lt potential]
    detection_compare_fields
    [of "potential\<lparr>QID := PInt 1, SEVERITY := PInt 5\<rparr>" "confirmed\<lparr>SEVERITY := PInt 1\<rparr>" Lt]
    detection_compare_fields [of confirmed "confirmed\<lparr>SEVERITY := PInt 4\<rparr>" Lt]
    detection_compare_fields [of "confirmed\<lparr>SEVERITY := PInt 4\<rparr>" potential Lt]
    detection_compare_fields [of confirmed potential Lt]
  by (simp add: confirmed_def potential_def)

subsection \<open>Construction from a mapping\<close>

lemma int_of_str_samples:
  "int_of_str ''12345'' = Some 12345" "int_of_str ''3'' = Some 3" "int_of_str ''45'' = Some 45"
  "int_of_str ''1'' = Some 1" "int_of_str ''2'' = Some 2"
  by (simp_all add: int_of_str_def strip_def is_space_def literal_def
        int_max_str_digits_def is_digit_def digit_val_def)

lemma to_int_cases:
  "to_int (PInt n) = Inr (PInt n)" "to_int PNone = Inr PNone"
  "to_int (PStr s) = and_then (py_int (PStr s)) (\<lambda>n. Inr (PInt n))"
  by (simp_all add: to_int_def)

text \<open>
  C3, as stated, fails: the mapping of scenario A passes the test of \<^verbatim>\<open>from_dict\<close> for
  its four required keys, and the constructor then refuses it, because UNIQUE_VULN_ID is
  declared without a default and the mapping has none.
\<close>

theorem scenario_A_missing_argument:
  "from_dict demo_lib scenario_A = Inl (TypeError_missing [''UNIQUE_VULN_ID''])"
  by (simp add: from_dict_def required_keys_def dict_keys_def scenario_A_def
      Detection_init_def bind_fields_def field_names_def required_fields_def)

text \<open>
  C3, amended. From the mapping of scenario A together with a UNIQUE_VULN_ID that is an
  integer or a decimal literal, \<^verbatim>\<open>from_dict\<close> returns a record with that identifier as
  an integer, the integer QID 12345, the integer SEVERITY 3, a QDS of severity "2" and
  score 45, and every other optional field at its declared default (the text of the
  empty RESULTS being empty).
\<close>

theorem scenario_A_with_identifier:
  "html_text L [] = [] \<and> py_int uid = Inr n \<and> \<not> is_bool uid \<longrightarrow>
     from_dict L (scenario_A @ [(''UNIQUE_VULN_ID'', uid)]) =
       Inr \<lparr>UNIQUE_VULN_ID = PInt n,
            QID = PInt 12345,
            TYPE' = PStr ''Confirmed'',
            SEVERITY = PInt 3,
            STATUS = PStr ''Active'',
            SSL = PBool False,
            RESULTS = PStr [],
            FIRST_FOUND_DATETIME = PNone,
            LAST_FOUND_DATETIME = PNone,
            QDS = PQDS (PStr ''2'') (PInt 45),
            QDS_FACTORS = PNone,
            TIMES_FOUND = PInt 0,
            LAST_TEST_DATETIME = PNone,
            LAST_UPDATE_DATETIME = PNone,
            IS_IGNORED = PBool False,
            IS_DISABLED = PBool False,
            LAST_PROCESSED_DATETIME = PNone,
            LAST_FIXED_DATETIME = PNone,
            PORT = PNone,
            PROTOCOL = PNone,
            FQDN = PNone\<rparr>"
proof (intro impI, elim conjE)
  assume h: "html_text L [] = []" and "py_int uid = Inr n" and "\<not> is_bool uid"
  then have u: "to_int uid = Inr (PInt n)"
    by (cases uid) (auto simp: to_int_def)
  show "from_dict L (scenario_A @ [(''UNIQUE_VULN_ID'', uid)]) =
       Inr \<lparr>UNIQUE_VULN_ID = PInt n, QID = PInt 12345, TYPE' = PStr ''Confirmed'',
            SEVERITY = PInt 3, STATUS = PStr ''Active'', SSL = PBool False, RESULTS = PStr [],
            FIRST_FOUND_DATETIME = PNone, LAST_FOUND_DATETIME = PNone,
            QDS = PQDS (PStr ''2'') (PInt 45), QDS_FACTORS = PNone, TIMES_FOUND = PInt 0,
            LAST_TEST_DATETIME = PNone, LAST_UPDATE_DATETIME = PNone,
            IS_IGNORED = PBool False, IS_DISABLED = PBool False,
            LAST_PROCESSED_DATETIME = PNone, LAST_FIXED_DATETIME = PNone,
            PORT = PNone, PROTOCOL = PNone, FQDN = PNone\<rparr>"
    using h u
    by (simp add: from_dict_def required_keys_def dict_keys_def scenario_A_def
        Detection_init_def bind_fields_def field_names_def required_fields_def arg_def
        post_init_unfold to_datetime_def get_text_def to_bool_def to_int_cases
        int_of_str_samples convert_qds_def convert_qds_factors_def)
qed

theorem scenario_A_with_identifier_witness:
  "html_text demo_lib [] = [] \<and> py_int (PStr ''1'') = Inr 1 \<and> \<not> is_bool (PStr ''1'')
   \<and> from_dict demo_lib (scenario_A @ [(''UNIQUE_VULN_ID'', PStr ''1'')]) =
       Inr \<lparr>UNIQUE_VULN_ID = PInt 1,
            QID = PInt 12345,
            TYPE' = PStr ''Confirmed'',
            SEVERITY = PInt 3,
            STATUS = PStr ''Active'',
            SSL = PBool False,
            RESULTS = PStr [],
            FIRST_FOUND_DATETIME = PNone,
            LAST_FOUND_DATETIME = PNone,
            QDS = PQDS (PStr ''2'') (PInt 45),
            QDS_FACTORS = PNone,
            TIMES_FOUND = PInt 0,
            LAST_TEST_DATETIME = PNone,
            LAST_UPDATE_DATETIME = PNone,
            IS_IGNORED = PBool False,
            IS_DISABLED = PBool False,
            LAST_PROCESSED_DATETIME = PNone,
            LAST_FIXED_DATETIME = PNone,
            PORT = PNone,
            PROTOCOL = PNone,
            FQDN = PNone\<rparr>"
proof -
  have h: "html_text demo_lib [] = []" "py_int (PStr ''1'') = Inr 1" "\<not> is_bool (PStr ''1'')"
    by (simp_all add: demo_lib_def int_of_str_samples)
  with scenario_A_with_identifier [of demo_lib "PStr ''1''" 1] show ?thesis by simp
qed

text \<open>
  C4, as stated, fails: for a mapping without QID and without UNIQUE_VULN_ID the error
  lists the four keys that \<^verbatim>\<open>from_dict\<close> tests, the present ones included, and does
  not name the missing UNIQUE_VULN_ID.
\<close>

theorem missing_field_not_named:
  "''UNIQUE_VULN_ID'' \<notin> set (dict_keys no_identifiers)
   \<and> from_dict demo_lib no_identifiers =
       Inl (ValueError_keys [''QID'', ''SEVERITY'', ''STATUS'', ''TYPE''])"
  by (simp add: from_dict_def required_keys_def dict_keys_def no_identifiers_def)

lemma bind_fields_no_identifier:
  assumes "list_all (\<lambda>k. k \<in> set (dict_keys data)) required_keys"
    and "''UNIQUE_VULN_ID'' \<notin> set (dict_keys data)"
  shows "bind_fields data = Inl (TypeError_missing [''UNIQUE_VULN_ID''])
       \<or> (\<exists>u. u \<in> set (dict_keys data) \<and> u \<notin> set field_names
              \<and> bind_fields data = Inl (TypeError_unexpected u))"
proof (cases "filter (\<lambda>k. k \<notin> set field_names) (dict_keys data)")
  case Nil
  have "filter (\<lambda>k. k \<notin> set (dict_keys data)) required_fields = [''UNIQUE_VULN_ID'']"
    using assms by (simp add: required_fields_def required_keys_def)
  with Nil show ?thesis by (simp add: bind_fields_def)
next
  case (Cons u us)
  then have "u \<in> set (filter (\<lambda>k. k \<notin> set field_names) (dict_keys data))" by simp
  then have "u \<in> set (dict_keys data)" "u \<notin> set field_names" by simp_all
  with Cons show ?thesis by (auto simp: bind_fields_def)
qed

text \<open>
  C4, amended. For a mapping that misses any of QID, SEVERITY, STATUS, TYPE,
  \<^verbatim>\<open>from_dict\<close> fails with the ValueError that lists these four required keys, whichever
  of them are missing. For a mapping that misses any of the five required fields,
  UNIQUE_VULN_ID included, \<^verbatim>\<open>from_dict\<close> fails and returns no record.
\<close>

theorem from_dict_missing_required:
  "(k \<in> set required_keys \<and> k \<notin> set (dict_keys data) \<longrightarrow>
      from_dict L data = Inl (ValueError_keys [''QID'', ''SEVERITY'', ''STATUS'', ''TYPE'']))
   \<and> (k \<in> set required_fields \<and> k \<notin> set (dict_keys data) \<longrightarrow>
      (\<exists>e. from_dict L data = Inl e))"
proof (intro conjI impI; elim conjE)
  assume "k \<in> set required_keys" "k \<notin> set (dict_keys data)"
  then have "\<not> list_all (\<lambda>k. k \<in> set (dict_keys data)) required_keys"
    by (auto simp: list_all_iff)
  then show "from_dict L data = Inl (ValueError_keys [''QID'', ''SEVERITY'', ''STATUS'', ''TYPE''])"
    by (simp add: from_dict_def required_keys_def)
next
  assume k: "k \<in> set required_fields" "k \<notin> set (dict_keys data)"
  show "\<exists>e. from_dict L data = Inl e"
  proof (cases "list_all (\<lambda>k. k \<in> set (dict_keys data)) required_keys")
    case False
    then show ?thesis by (simp add: from_dict_def)
  next
    case True
    with k have "''UNIQUE_VULN_ID'' \<notin> set (dict_keys data)"
      by (auto simp: required_fields_def required_keys_def)
    from bind_fields_no_identifier [OF True this] True show ?thesis
      by (auto simp: from_dict_def Detection_init_def)
  qed
qed

theorem from_dict_missing_required_witness:
  "''QID'' \<in> set required_keys \<and> ''QID'' \<notin> set (dict_keys no_identifiers)
   \<and> from_dict demo_lib no_identifiers =
       Inl (ValueError_keys [''QID'', ''SEVERITY'', ''STATUS'', ''TYPE''])
   \<and> ''UNIQUE_VULN_ID'' \<in> set required_fields \<and> ''UNIQUE_VULN_ID'' \<notin> set (dict_keys scenario_A)
   \<and> (\<exists>e. from_dict demo_lib scenario_A = Inl e)"
proof -
  have a: "''QID'' \<in> set required_keys" "''QID'' \<notin> set (dict_keys no_identifiers)"
    by (simp_all add: required_keys_def dict_keys_def no_identifiers_def)
  have b: "''UNIQUE_VULN_ID'' \<in> set required_fields"
    "''UNIQUE_VULN_ID'' \<notin> set (dict_keys scenario_A)"
    by (simp_all add: required_fields_def dict_keys_def scenario_A_def)
  from a from_dict_missing_required [of "''QID''" no_identifiers demo_lib]
  have "from_dict demo_lib no_identifiers =
      Inl (ValueError_keys [''QID'', ''SEVERITY'', ''STATUS'', ''TYPE''])" by simp
  moreover from b from_dict_missing_required [of "''UNIQUE_VULN_ID''" scenario_A demo_lib]
  have "\<exists>e. from_dict demo_lib scenario_A = Inl e" by simp
  ultimately show ?thesis using a b by simp
qed

subsection \<open>Copies\<close>













end
